theory Spec2Isabelle
  imports Main "HOL-Library.Sublist"
begin

section \<open>The PIP verifiable-credential service\<close>

text \<open>
  A shallow embedding of the credential core of the service: the two encoders of
  \<^verbatim>\<open>services/vcService.js\<close>, the pod persistence of \<^verbatim>\<open>services/podService.js\<close> and the
  \<^verbatim>\<open>/vc/issue\<close> and \<^verbatim>\<open>/vc/revoke\<close> handlers of \<^verbatim>\<open>routes/vc.js\<close>.

  Strings are \<^typ>\<open>string\<close>; a character stands for one UTF-16 code unit below 256, so the
  pound sign of the award amounts is \<open>CHR 0xA3\<close>. Template literals are written as the
  concatenation of their lines, each ending in \<open>\<newline>\<close> where the source has a line
  break.
\<close>

subsection \<open>JavaScript values of a request body\<close>

text \<open>
  A request body is parsed JSON, so a field can hold any JSON value or be absent
  (\<open>JUndefined\<close>). The handlers test fields with \<^verbatim>\<open>!x\<close>; \<open>truthy\<close> is JavaScript's
  \<^verbatim>\<open>ToBoolean\<close>. Numbers are restricted to integers.
\<close>

datatype jsval =
    JUndefined
  | JNull
  | JBool bool
  | JNum int
  | JStr string
  | JArr "jsval list"
  | JObj "(string \<times> jsval) list"

fun truthy :: "jsval \<Rightarrow> bool" where
  "truthy JUndefined = False"
| "truthy JNull = False"
| "truthy (JBool b) = b"
| "truthy (JNum n) = (n \<noteq> 0)"
| "truthy (JStr s) = (s \<noteq> [])"
| "truthy (JArr xs) = True"
| "truthy (JObj kvs) = True"

text \<open>A thrown \<^verbatim>\<open>Error\<close>, with its message.\<close>

datatype js_error = Error (message: string)

subsection \<open>Credential data\<close>

text \<open>
  \<^verbatim>\<open>benefitData\<close>: the claims of the award. \<^verbatim>\<open>components\<close> is an array of strings in the
  preview handler and an object of strings in the issue handler; both are truthy whenever
  present. \<^verbatim>\<open>totalWeeklyAmount\<close> is a string when present.
\<close>

datatype components = ComponentList "string list" | ComponentMap "(string \<times> string) list"

record benefit_data =
  benefitType :: string
  amount :: string
  assessmentDate :: string
  totalWeeklyAmount :: "string option"
  components :: "components option"

text \<open>
  \<^verbatim>\<open>vcData = { id, webid, benefitData, preview }\<close>; \<open>vd_preview = None\<close> is a call that
  leaves \<^verbatim>\<open>preview\<close> out, which the destructuring default turns into \<^verbatim>\<open>false\<close>.
\<close>

record vc_data =
  vd_id :: string
  vd_webid :: string
  vd_benefitData :: benefit_data
  vd_preview :: "bool option"

definition previewOf :: "vc_data \<Rightarrow> bool" where
  "previewOf vd = (case vd_preview vd of None \<Rightarrow> False | Some b \<Rightarrow> b)"

text \<open>
  The JSON-LD document. Its keys \<^verbatim>\<open>@context\<close>, \<^verbatim>\<open>id\<close>, \<^verbatim>\<open>type\<close> and \<^verbatim>\<open>proof\<close> are the
  fields \<open>vc_context\<close>, \<open>vc_id\<close>, \<open>vc_type\<close> and \<open>vc_proof\<close>; a key the source never
  sets is \<open>None\<close>.
\<close>

datatype context_entry = ContextIri string | ContextTerms "(string \<times> string) list"

record proof_block =
  proof_type :: string
  created :: string
  proofPurpose :: string
  verificationMethod :: string
  jws :: string

record credential_subject =
  cs_id :: string
  cs_benefitType :: string
  cs_amount :: string
  cs_assessmentDate :: string
  cs_components :: "components option"
  cs_totalWeeklyAmount :: "string option"

record jsonld_vc =
  vc_context :: "context_entry list"
  vc_id :: string
  vc_type :: "string list"
  issuer :: string
  issuanceDate :: string
  credentialSubject :: credential_subject
  vc_proof :: "proof_block option"

subsection \<open>The environment of a call\<close>

text \<open>
  What the code reads from outside itself: the process environment, the library
  functions it calls (\<^verbatim>\<open>JSON.stringify\<close>, \<^verbatim>\<open>crypto\<close>, \<^verbatim>\<open>URL\<close>, \<^verbatim>\<open>uuid\<close>), taken as parameters,
  the conversion of a value that is not a string to text (\<open>js_String\<close>, JavaScript's
  \<^verbatim>\<open>ToString\<close>, which throws a \<^verbatim>\<open>TypeError\<close> on an object that has no usable \<^verbatim>\<open>toString\<close>),
  and the outcome of the HTTP request that \<^verbatim>\<open>putResource\<close> stands for:
  \<open>put_fault url = Some m\<close> when the body of its \<^verbatim>\<open>try\<close> throws an error with message
  \<open>m\<close> for that URL. The mock in the repository never throws: it is
  \<open>put_fault = (\<lambda>_. None)\<close>.
\<close>

record env =
  SERVICE_DID_WEB :: "string option"
  DEFAULT_PDS_BASE :: "string option"
  json_stringify :: "nat \<Rightarrow> jsonld_vc \<Rightarrow> string"
  sha256_hex :: "string \<Rightarrow> string"
  randomBytes16_hex :: string
  uuidv4 :: "nat \<Rightarrow> string"
  js_String :: "jsval \<Rightarrow> js_error + string"
  url_resolve :: "string \<Rightarrow> string \<Rightarrow> js_error + string"
  url_origin :: "string \<Rightarrow> js_error + string"
  put_fault :: "string \<Rightarrow> string option"

text \<open>
  The wall clock. A call evaluates \<^verbatim>\<open>new Date().toISOString()\<close> at several places;
  \<open>clk k\<close> is what the clock returns at the \<open>k\<close>-th of them, counted from 0 in the order of
  the source text of the call. Nothing is assumed about the readings. A callee sees the
  readings of its own places: \<open>later n clk\<close> skips the \<open>n\<close> places before it.
\<close>

type_synonym clock = "nat \<Rightarrow> string"

definition later :: "nat \<Rightarrow> clock \<Rightarrow> clock" where
  "later n clk = (\<lambda>k. clk (k + n))"

text \<open>\<^verbatim>\<open>process.env.SERVICE_DID_WEB || "did:web:pip.gov.uk"\<close>: unset or empty gives the default.\<close>

definition issuerId :: "env \<Rightarrow> string" where
  "issuerId e =
     (case SERVICE_DID_WEB e of
        None \<Rightarrow> ''did:web:pip.gov.uk''
      | Some s \<Rightarrow> if s = [] then ''did:web:pip.gov.uk'' else s)"

text \<open>\<^verbatim>\<open>${process.env.SERVICE_DID_WEB}\<close> inside a template: an unset variable prints as \<^verbatim>\<open>undefined\<close>.\<close>

definition didText :: "env \<Rightarrow> string" where
  "didText e = (case SERVICE_DID_WEB e of None \<Rightarrow> ''undefined'' | Some s \<Rightarrow> s)"

subsection \<open>vcService: the JSON-LD encoder\<close>

definition generateMockSignature :: "env \<Rightarrow> jsonld_vc \<Rightarrow> string" where
  "generateMockSignature e vc =
     ''mock-jws-signature-'' @ take 16 (sha256_hex e (json_stringify e 0 vc))"

definition generateProof :: "env \<Rightarrow> clock \<Rightarrow> jsonld_vc \<Rightarrow> proof_block" where
  "generateProof e clk vc =
     \<lparr> proof_type = ''RsaSignature2018'',
       created = clk 0,
       proofPurpose = ''assertionMethod'',
       verificationMethod = didText e @ ''#key-1'',
       jws = generateMockSignature e vc \<rparr>"

definition vcContext :: "context_entry list" where
  "vcContext =
     [ ContextIri ''https://www.w3.org/2018/credentials/v1'',
       ContextIri ''https://schema.org/'',
       ContextTerms
         [ (''PIPBenefitCredential'', ''https://gov.uk/schemas/PIPBenefitCredential''),
           (''benefitType'', ''https://schema.org/name''),
           (''amount'', ''https://schema.org/amount''),
           (''assessmentDate'', ''https://schema.org/dateCreated''),
           (''components'', ''https://gov.uk/schemas/benefitComponents'') ] ]"

text \<open>\<^verbatim>\<open>if (benefitData.totalWeeklyAmount)\<close>: a present, non-empty string.\<close>

definition truthyStr :: "string option \<Rightarrow> bool" where
  "truthyStr v = (case v of None \<Rightarrow> False | Some s \<Rightarrow> s \<noteq> [])"

definition generateJsonLdVc :: "env \<Rightarrow> clock \<Rightarrow> vc_data \<Rightarrow> jsonld_vc" where
  "generateJsonLdVc e clk vd =
     (let bd = vd_benefitData vd;
          subject0 =
            \<lparr> cs_id = vd_webid vd,
              cs_benefitType = benefitType bd,
              cs_amount = amount bd,
              cs_assessmentDate = assessmentDate bd,
              cs_components = None,
              cs_totalWeeklyAmount = None \<rparr>;
          subject1 =
            (if components bd \<noteq> None then subject0\<lparr>cs_components := components bd\<rparr>
             else subject0);
          subject2 =
            (if truthyStr (totalWeeklyAmount bd)
             then subject1\<lparr>cs_totalWeeklyAmount := totalWeeklyAmount bd\<rparr>
             else subject1);
          vc =
            \<lparr> vc_context = vcContext,
              vc_id = vd_id vd,
              vc_type = [''VerifiableCredential'', ''PIPBenefitCredential''],
              issuer = issuerId e,
              issuanceDate = clk 0,
              credentialSubject = subject2,
              vc_proof = None \<rparr>
      in if \<not> previewOf vd then vc\<lparr>vc_proof := Some (generateProof e (later 1 clk) vc)\<rparr>
         else vc)"

subsection \<open>vcService: the Turtle encoder\<close>

text \<open>
  The template literal of \<^verbatim>\<open>generateTurtleVc\<close>, piece by piece. Every \<^verbatim>\<open>${...}\<close> is
  inserted as it is: the source applies no escaping. The two conditional pieces are
  \<open>totalAmountPart\<close> and \<open>proofPart\<close>; each is the empty string when its condition fails.
\<close>

definition turtlePrefixes :: string where
  \<open>turtlePrefixes =
     ''@prefix cred: <https://www.w3.org/2018/credentials#> .\<newline>'' @
     ''@prefix schema: <http://schema.org/> .\<newline>'' @
     ''@prefix xsd: <http://www.w3.org/2001/XMLSchema#> .\<newline>'' @
     ''@prefix dc: <http://purl.org/dc/terms/> .\<newline>'' @
     ''@prefix rdf: <http://www.w3.org/1999/02/22-rdf-syntax-ns#> .\<newline>'' @
     ''\<newline>''\<close>

definition totalAmountPart :: "benefit_data \<Rightarrow> string" where
  \<open>totalAmountPart bd =
     (case totalWeeklyAmount bd of
        None \<Rightarrow> []
      | Some s \<Rightarrow>
          if s = [] then []
          else '' ;\<newline>'' @
               ''    schema:totalAmount "'' @ s @ ''"'')\<close>

definition proofPart :: "env \<Rightarrow> clock \<Rightarrow> vc_data \<Rightarrow> string" where
  \<open>proofPart e clk vd =
     (if \<not> previewOf vd
      then '' ;\<newline>'' @
           ''    cred:proof [\<newline>'' @
           ''        a cred:Proof ;\<newline>'' @
           ''        cred:type "RsaSignature2018" ;\<newline>'' @
           ''        cred:created "'' @ clk 2 @ ''"^^xsd:dateTime ;\<newline>'' @
           ''        cred:proofPurpose "assertionMethod" ;\<newline>'' @
           ''        cred:verificationMethod <'' @ didText e @ ''#key-1> ;\<newline>'' @
           ''        cred:jws "mock-signature-'' @ randomBytes16_hex e @ ''"\<newline>'' @
           ''    ]''
      else [])\<close>

definition generateTurtleVc :: "env \<Rightarrow> clock \<Rightarrow> vc_data \<Rightarrow> string" where
  \<open>generateTurtleVc e clk vd =
     (let bd = vd_benefitData vd in
      turtlePrefixes @
      ''<'' @ vd_id vd @ ''>\<newline>'' @
      ''    a cred:VerifiableCredential ;\<newline>'' @
      ''    rdf:type <https://gov.uk/schemas/PIPBenefitCredential> ;\<newline>'' @
      ''    cred:issuer <'' @ issuerId e @ ''> ;\<newline>'' @
      ''    cred:credentialSubject <'' @ vd_webid vd @ ''> ;\<newline>'' @
      ''    cred:issuanceDate "'' @ clk 0 @ ''"^^xsd:dateTime ;\<newline>'' @
      ''    dc:created "'' @ clk 1 @ ''"^^xsd:dateTime ;\<newline>'' @
      ''    dc:title "PIP Benefit Award Credential" ;\<newline>'' @
      ''    dc:creator <'' @ issuerId e @ ''> ;\<newline>'' @
      ''    schema:benefitType "'' @ benefitType bd @ ''" ;\<newline>'' @
      ''    schema:amount "'' @ amount bd @ ''" ;\<newline>'' @
      ''    schema:dateCreated "'' @ assessmentDate bd @ ''"^^xsd:dateTime'' @
      totalAmountPart bd @
      proofPart e clk vd @
      '' .'')\<close>

subsection \<open>podService: the state of the world\<close>

text \<open>
  \<^verbatim>\<open>putResource\<close> is a mock: it prints the request (URL, content type, content length,
  user) and answers 201. \<open>puts\<close> is the list of the requests it has accepted, in order,
  each with the content it was given; it stands for the three lines the mock prints and
  for the resource a real pod would then hold. \<open>console\<close> holds every other line the code
  prints: \<open>Info\<close> for \<^verbatim>\<open>console.log\<close>, \<open>Err\<close> for \<^verbatim>\<open>console.error(label, error)\<close> with the
  error's message. \<open>uuids_taken\<close> counts the calls of \<^verbatim>\<open>uuidv4()\<close>.
\<close>

record user =
  webid :: string
  sub :: "string option"
  iss :: "string option"
  aud :: "string option"

record put_request =
  put_url :: string
  put_content :: string
  put_contentType :: string
  put_user :: string

datatype log_line = Info string | Err string string

record world =
  puts :: "put_request list"
  console :: "log_line list"
  uuids_taken :: nat

record put_response =
  pr_status :: nat
  pr_location :: string
  pr_contentType :: string

definition putResource ::
  "env \<Rightarrow> string \<Rightarrow> string \<Rightarrow> string \<Rightarrow> user \<Rightarrow> world \<Rightarrow> (js_error + put_response) \<times> world"
where
  "putResource e url content contentType u w =
     (case put_fault e url of
        Some m \<Rightarrow> (Inl (Error (''HTTP PUT failed: '' @ m)), w)
      | None \<Rightarrow>
          (Inr \<lparr> pr_status = 201, pr_location = url, pr_contentType = contentType \<rparr>,
           w\<lparr>puts := puts w @
              [\<lparr> put_url = url, put_content = content, put_contentType = contentType,
                 put_user = webid u \<rparr>]\<rparr>))"

definition logInfo :: "string \<Rightarrow> world \<Rightarrow> world" where
  "logInfo text w = w\<lparr>console := console w @ [Info text]\<rparr>"

definition logError :: "string \<Rightarrow> js_error \<Rightarrow> world \<Rightarrow> world" where
  "logError label err w = w\<lparr>console := console w @ [Err label (message err)]\<rparr>"

subsection \<open>podService: the index entry and the access-control document\<close>

definition indexEntry :: "string \<Rightarrow> string \<Rightarrow> clock \<Rightarrow> string" where
  \<open>indexEntry containerUrl vcId clk =
     ''\<newline>'' @
     ''@prefix ldp: <http://www.w3.org/ns/ldp#> .\<newline>'' @
     ''@prefix dc: <http://purl.org/dc/terms/> .\<newline>'' @
     ''@prefix cred: <https://www.w3.org/2018/credentials#> .\<newline>'' @
     ''\<newline>'' @
     ''<'' @ containerUrl @ ''>\<newline>'' @
     ''    ldp:contains <'' @ vcId @ ''.jsonld> , <'' @ vcId @ ''.ttl> .\<newline>'' @
     ''\<newline>'' @
     ''<'' @ vcId @ ''.jsonld>\<newline>'' @
     ''    a cred:VerifiableCredential ;\<newline>'' @
     ''    dc:title "PIP Benefit Award Credential (JSON-LD)" ;\<newline>'' @
     ''    dc:created "'' @ clk 0 @ ''"^^<http://www.w3.org/2001/XMLSchema#dateTime> ;\<newline>'' @
     ''    dc:format "application/ld+json" .\<newline>'' @
     ''\<newline>'' @
     ''<'' @ vcId @ ''.ttl>\<newline>'' @
     ''    a cred:VerifiableCredential ;\<newline>'' @
     ''    dc:title "PIP Benefit Award Credential (Turtle)" ;\<newline>'' @
     ''    dc:created "'' @ clk 1 @ ''"^^<http://www.w3.org/2001/XMLSchema#dateTime> ;\<newline>'' @
     ''    dc:format "text/turtle" .\<newline>''\<close>

definition aclDocument :: "string \<Rightarrow> string \<Rightarrow> string" where
  \<open>aclDocument ownerWebid vcId =
     ''\<newline>'' @
     ''@prefix acl: <http://www.w3.org/ns/auth/acl#> .\<newline>'' @
     ''@prefix : <#> .\<newline>'' @
     ''\<newline>'' @
     '':owner\<newline>'' @
     ''    a acl:Authorization ;\<newline>'' @
     ''    acl:agent <'' @ ownerWebid @ ''> ;\<newline>'' @
     ''    acl:accessTo <'' @ vcId @ ''.jsonld> , <'' @ vcId @ ''.ttl> ;\<newline>'' @
     ''    acl:mode acl:Read , acl:Write , acl:Control .\<newline>'' @
     ''\<newline>'' @
     '':eonAccess\<newline>'' @
     ''    a acl:Authorization ;\<newline>'' @
     ''    acl:agent <https://eon.co.uk/did.json> ;\<newline>'' @
     ''    acl:accessTo <'' @ vcId @ ''.jsonld> , <'' @ vcId @ ''.ttl> ;\<newline>'' @
     ''    acl:mode acl:Read .\<newline>'' @
     ''\<newline>'' @
     '':publicRead\<newline>'' @
     ''    a acl:Authorization ;\<newline>'' @
     ''    acl:agentClass acl:AuthenticatedAgent ;\<newline>'' @
     ''    acl:accessTo <'' @ vcId @ ''.jsonld> , <'' @ vcId @ ''.ttl> ;\<newline>'' @
     ''    acl:mode acl:Read .\<newline>''\<close>

subsection \<open>podService: the operations\<close>

text \<open>
  \<^verbatim>\<open>updateCredentialsIndex\<close> and \<^verbatim>\<open>setCredentialPermissions\<close> catch every error of their
  body, print it and return normally, so each is a function from world to world.
  \<open>url_resolve e rel base\<close> is \<^verbatim>\<open>new URL(rel, base).toString()\<close>, which throws on a base
  that is no URL.
\<close>

definition updateCredentialsIndex :: "env \<Rightarrow> clock \<Rightarrow> string \<Rightarrow> string \<Rightarrow> user \<Rightarrow> world \<Rightarrow> world" where
  "updateCredentialsIndex e clk podUrl vcId u w =
     (case url_resolve e ''credentials/index.ttl'' podUrl of
        Inl err \<Rightarrow> logError ''Index update error:'' err w
      | Inr indexUrl \<Rightarrow>
          (case url_resolve e ''credentials/'' podUrl of
             Inl err \<Rightarrow> logError ''Index update error:'' err w
           | Inr containerUrl \<Rightarrow>
               (case putResource e indexUrl (indexEntry containerUrl vcId clk) ''text/turtle'' u w of
                  (Inl err, w1) \<Rightarrow> logError ''Index update error:'' err w1
                | (Inr _, w1) \<Rightarrow> logInfo (''Updated credentials index at '' @ indexUrl) w1)))"

definition setCredentialPermissions :: "env \<Rightarrow> string \<Rightarrow> string \<Rightarrow> user \<Rightarrow> world \<Rightarrow> world" where
  "setCredentialPermissions e podUrl vcId u w =
     (case url_resolve e (''credentials/'' @ vcId @ ''.jsonld.acl'') podUrl of
        Inl err \<Rightarrow> logError ''Permission setting error:'' err w
      | Inr aclUrl \<Rightarrow>
          (case putResource e aclUrl (aclDocument (webid u) vcId) ''text/turtle'' u w of
             (Inl err, w1) \<Rightarrow> logError ''Permission setting error:'' err w1
           | (Inr _, w1) \<Rightarrow>
               logInfo (''Set permissions for '' @ vcId @ '' - EON granted read access'') w1))"

text \<open>
  \<^verbatim>\<open>storeCredential\<close>: the four steps in one \<^verbatim>\<open>try\<close>. Whatever is thrown inside is
  printed and thrown again as \<^verbatim>\<open>Failed to store credential: <message>\<close>; the steps after
  the throwing one do not run.
\<close>

record stored_vc =
  jsonLd :: jsonld_vc
  turtle :: string

record store_result =
  success :: bool
  loc_jsonld :: string
  loc_turtle :: string

definition storeFailed :: "js_error \<Rightarrow> world \<Rightarrow> (js_error + store_result) \<times> world" where
  "storeFailed err w =
     (Inl (Error (''Failed to store credential: '' @ message err)),
      logError ''Pod storage error:'' err w)"

definition storeCredential ::
  "env \<Rightarrow> clock \<Rightarrow> string \<Rightarrow> string \<Rightarrow> stored_vc \<Rightarrow> user \<Rightarrow> world \<Rightarrow> (js_error + store_result) \<times> world"
where
  "storeCredential e clk podUrl vcId vcData u w =
     (case url_resolve e (''credentials/'' @ vcId) podUrl of
        Inl err \<Rightarrow> storeFailed err w
      | Inr fullUrl \<Rightarrow>
          (case putResource e (fullUrl @ ''.jsonld'') (json_stringify e 2 (jsonLd vcData))
                  ''application/ld+json'' u w of
             (Inl err, w1) \<Rightarrow> storeFailed err w1
           | (Inr _, w1) \<Rightarrow>
               (case putResource e (fullUrl @ ''.ttl'') (turtle vcData) ''text/turtle'' u w1 of
                  (Inl err, w2) \<Rightarrow> storeFailed err w2
                | (Inr _, w2) \<Rightarrow>
                    (let w3 = updateCredentialsIndex e clk podUrl vcId u w2;
                         w4 = setCredentialPermissions e podUrl vcId u w3
                     in (Inr \<lparr> success = True,
                               loc_jsonld = fullUrl @ ''.jsonld'',
                               loc_turtle = fullUrl @ ''.ttl'' \<rparr>, w4)))))"

definition defaultPdsBase :: "env \<Rightarrow> string" where
  "defaultPdsBase e =
     (case DEFAULT_PDS_BASE e of
        None \<Rightarrow> ''https://pds.solid.example.org''
      | Some s \<Rightarrow> if s = [] then ''https://pds.solid.example.org'' else s)"

text \<open>
  \<^verbatim>\<open>discoverPodUrl\<close>: \<open>url_origin e webid\<close> is \<^verbatim>\<open>protocol + "//" + host\<close> of
  \<^verbatim>\<open>new URL(webid)\<close>, which throws on a WebID that is no URL.
\<close>

definition discoverPodUrl :: "env \<Rightarrow> string \<Rightarrow> world \<Rightarrow> string \<times> world" where
  "discoverPodUrl e wid w =
     (case url_origin e wid of
        Inr baseUrl \<Rightarrow> (baseUrl @ ''/storage/'', w)
      | Inl err \<Rightarrow> (defaultPdsBase e, logError ''Pod discovery error:'' err w))"

subsection \<open>routes/vc: the handlers\<close>

text \<open>The benefit data the preview and the issue handler encode.\<close>

definition previewBenefitData :: benefit_data where
  "previewBenefitData =
     \<lparr> benefitType = ''PIP'',
       amount = CHR 0xA3 # ''90.10/week'',
       assessmentDate = ''2025-01-15'',
       totalWeeklyAmount = None,
       components = Some (ComponentList [''Daily Living - Standard'', ''Mobility - Enhanced'']) \<rparr>"

definition issueBenefitData :: benefit_data where
  "issueBenefitData =
     \<lparr> benefitType = ''PIP'',
       amount = CHR 0xA3 # ''90.10/week'',
       assessmentDate = ''2025-01-15'',
       totalWeeklyAmount = Some (CHR 0xA3 # ''162.90''),
       components =
         Some (ComponentMap
           [ (''dailyLiving'', ''Standard - '' @ CHR 0xA3 # ''68.10''),
             (''mobility'', ''Enhanced - '' @ CHR 0xA3 # ''94.80'') ]) \<rparr>"

text \<open>
  A body field inside a template literal or as the base of \<^verbatim>\<open>new URL\<close>: a string as it is,
  anything else through \<^verbatim>\<open>ToString\<close>, which may throw.
\<close>

definition toStr :: "env \<Rightarrow> jsval \<Rightarrow> js_error + string" where
  "toStr e v = (case v of JStr s \<Rightarrow> Inr s | _ \<Rightarrow> js_String e v)"

record issue_metadata =
  im_issuer :: "string option"
  im_subject :: string
  im_benefitType :: string
  im_amount :: string
  im_signature :: string

record issued_body =
  ib_success :: bool
  ib_vcId :: string
  ib_vc :: jsonld_vc
  ib_storageLocation :: string
  ib_issuanceDate :: string
  ib_formats :: "string list"
  ib_metadata :: issue_metadata

text \<open>A response: the status and the JSON body; an error body is \<^verbatim>\<open>{ error, message }\<close>.\<close>

datatype issue_response =
    IssueError (issue_status: nat) string string
  | Issued (issue_status: nat) issued_body

definition signatureLabel :: "jsonld_vc \<Rightarrow> string" where
  "signatureLabel vc =
     (case vc_proof vc of
        None \<Rightarrow> ''mock''
      | Some p \<Rightarrow> if jws p \<noteq> [] then ''present'' else ''mock'')"

text \<open>
  \<^verbatim>\<open>POST /vc/issue\<close> with body \<^verbatim>\<open>{ confirm, podUrl }\<close>, after the authentication
  middleware has set \<^verbatim>\<open>req.user\<close>. The places that read the clock are, in order: two in
  the JSON-LD encoder, three in the Turtle encoder, two in the index entry, one in the
  response. Everything after the guard runs inside one \<^verbatim>\<open>try\<close>, whose \<^verbatim>\<open>catch\<close> is
  \<open>issueFailed\<close>. A \<^verbatim>\<open>podUrl\<close> of the body is handed to \<^verbatim>\<open>storeCredential\<close> as it is; its
  conversion to text happens there, in the first \<^verbatim>\<open>new URL\<close>, so a conversion that throws is
  caught by \<^verbatim>\<open>storeCredential\<close> and thrown again like any other storage error.
\<close>

definition issueFailed :: "js_error \<Rightarrow> world \<Rightarrow> issue_response \<times> world" where
  "issueFailed err w =
     (IssueError 500 ''VC issuance failed'' (message err),
      logError ''VC issuance error:'' err w)"

definition issue :: "env \<Rightarrow> clock \<Rightarrow> user \<Rightarrow> jsval \<Rightarrow> jsval \<Rightarrow> world \<Rightarrow> issue_response \<times> world" where
  "issue e clk u confirm podUrl w =
     (if \<not> truthy confirm
      then (IssueError 400 ''Confirmation required''
              ''Must confirm VC issuance by setting confirm: true'', w)
      else
        (let vcId = ''urn:uuid:'' @ uuidv4 e (uuids_taken w);
             w0 = w\<lparr>uuids_taken := Suc (uuids_taken w)\<rparr>;
             vcData =
               \<lparr> vd_id = vcId, vd_webid = webid u, vd_benefitData = issueBenefitData,
                 vd_preview = Some False \<rparr>;
             jsonLdVc = generateJsonLdVc e clk vcData;
             turtleVc = generateTurtleVc e (later 2 clk) vcData;
             (target, w1) =
               (if truthy podUrl then (toStr e podUrl, w0)
                else (case discoverPodUrl e (webid u) w0 of
                        (discovered, w') \<Rightarrow> (Inr discovered, w')))
         in case target of
              Inl err \<Rightarrow>
                issueFailed (Error (''Failed to store credential: '' @ message err))
                  (logError ''Pod storage error:'' err w1)
            | Inr targetPodUrl \<Rightarrow>
                (case storeCredential e (later 5 clk) targetPodUrl vcId
                        \<lparr> jsonLd = jsonLdVc, turtle = turtleVc \<rparr> u w1 of
                   (Inl err, w2) \<Rightarrow> issueFailed err w2
                 | (Inr storageResult, w2) \<Rightarrow>
                     (Issued 201
                        \<lparr> ib_success = True,
                          ib_vcId = vcId,
                          ib_vc = jsonLdVc,
                          ib_storageLocation = targetPodUrl @ ''/credentials/'' @ vcId,
                          ib_issuanceDate = clk 7,
                          ib_formats = [''application/ld+json'', ''text/turtle''],
                          ib_metadata =
                            \<lparr> im_issuer = SERVICE_DID_WEB e,
                              im_subject = webid u,
                              im_benefitType = benefitType issueBenefitData,
                              im_amount = amount issueBenefitData,
                              im_signature = signatureLabel jsonLdVc \<rparr> \<rparr>,
                      logInfo (''VC issued: '' @ vcId @ '' for '' @ webid u) w2))))"





text \<open>
  \<^verbatim>\<open>POST /vc/revoke\<close> with body \<^verbatim>\<open>{ vcId, reason }\<close>. The handler looks nothing up and
  stores nothing: after the two guards it prints one line and answers 200. The line is a
  template literal that converts \<^verbatim>\<open>vcId\<close>, then the WebID, then \<^verbatim>\<open>reason\<close> to text inside the
  \<^verbatim>\<open>try\<close>; a conversion that throws is caught, printed and answered 500 with
  \<^verbatim>\<open>{ error, message }\<close>. The WebID of \<^verbatim>\<open>req.user\<close> is a string here.
\<close>

record revoked_body =
  rb_success :: bool
  rb_vcId :: jsval
  rb_revokedBy :: string
  rb_reason :: jsval
  rb_revokedAt :: string
  rb_message :: string

datatype revoke_response =
    RevokeError (revoke_status: nat) string
  | Revoked (revoke_status: nat) revoked_body
  | RevokeFailed (revoke_status: nat) string string

definition revokeFailed :: "js_error \<Rightarrow> world \<Rightarrow> revoke_response \<times> world" where
  "revokeFailed err w =
     (RevokeFailed 500 ''VC revocation failed'' (message err),
      logError ''VC revocation error:'' err w)"

definition revoke :: "env \<Rightarrow> clock \<Rightarrow> user \<Rightarrow> jsval \<Rightarrow> jsval \<Rightarrow> world \<Rightarrow> revoke_response \<times> world" where
  "revoke e clk u vcId reason w =
     (if \<not> truthy vcId then (RevokeError 400 ''Missing VC ID'', w)
      else if \<not> truthy reason then (RevokeError 400 ''Revocation reason required'', w)
      else
        (case toStr e vcId of
           Inl err \<Rightarrow> revokeFailed err w
         | Inr vcIdText \<Rightarrow>
             (case toStr e reason of
                Inl err \<Rightarrow> revokeFailed err w
              | Inr reasonText \<Rightarrow>
                  (Revoked 200
                     \<lparr> rb_success = True,
                       rb_vcId = vcId,
                       rb_revokedBy = webid u,
                       rb_reason = reason,
                       rb_revokedAt = clk 0,
                       rb_message = ''Credential successfully revoked'' \<rparr>,
                   logInfo (''VC revoked: '' @ vcIdText @ '' by '' @ webid u @
                            '', reason: '' @ reasonText) w))))"

section \<open>Definitions used to state the properties\<close>

subsection \<open>Occurrences of a text in the Turtle output\<close>

text \<open>
  \<open>sublist tok s\<close> is JavaScript's \<^verbatim>\<open>s.includes(tok)\<close>, and \<open>occurrences tok s\<close> counts the
  positions of \<open>s\<close> at which \<open>tok\<close> starts. The Turtle encoder pastes its inputs into the
  template unchanged, so whatever text a value carries appears in the output:
  \<open>occurrencesInValues tok e clk vd\<close> counts the occurrences of \<open>tok\<close> inside the values
  the template inserts for an unsigned credential, each as often as it is inserted (the
  issuer twice), and \<open>valuesFreeOf tok e clk vd\<close> says that none of them contains \<open>tok\<close>.
\<close>

fun occurrences :: "string \<Rightarrow> string \<Rightarrow> nat" where
  "occurrences tok [] = 0"
| "occurrences tok (c # cs) = (if prefix tok (c # cs) then 1 else 0) + occurrences tok cs"

definition occurrencesInValues :: "string \<Rightarrow> env \<Rightarrow> clock \<Rightarrow> vc_data \<Rightarrow> nat" where
  "occurrencesInValues tok e clk vd =
     occurrences tok (vd_id vd) + occurrences tok (issuerId e) +
     occurrences tok (vd_webid vd) +
     occurrences tok (clk 0) + occurrences tok (clk 1) + occurrences tok (issuerId e) +
     occurrences tok (benefitType (vd_benefitData vd)) +
     occurrences tok (amount (vd_benefitData vd)) +
     occurrences tok (assessmentDate (vd_benefitData vd)) +
     (case totalWeeklyAmount (vd_benefitData vd) of
        None \<Rightarrow> 0
      | Some s \<Rightarrow> occurrences tok s)"

definition valuesFreeOf :: "string \<Rightarrow> env \<Rightarrow> clock \<Rightarrow> vc_data \<Rightarrow> bool" where
  "valuesFreeOf tok e clk vd =
     (\<not> sublist tok (vd_id vd) \<and> \<not> sublist tok (issuerId e) \<and>
      \<not> sublist tok (vd_webid vd) \<and>
      \<not> sublist tok (clk 0) \<and> \<not> sublist tok (clk 1) \<and>
      \<not> sublist tok (benefitType (vd_benefitData vd)) \<and>
      \<not> sublist tok (amount (vd_benefitData vd)) \<and>
      \<not> sublist tok (assessmentDate (vd_benefitData vd)) \<and>
      (case totalWeeklyAmount (vd_benefitData vd) of
         None \<Rightarrow> True
       | Some s \<Rightarrow> \<not> sublist tok s))"

subsection \<open>Concrete inputs\<close>

text \<open>
  An environment in which every request succeeds, as with the mock, and one in which the
  request to a single URL fails. URL resolution is plain concatenation, which is what
  \<^verbatim>\<open>new URL(rel, base)\<close> gives for the base used here, a URL that ends in a slash.
\<close>

definition testEnv :: env where
  "testEnv =
     \<lparr> SERVICE_DID_WEB = Some ''did:web:pip.gov.uk'',
       DEFAULT_PDS_BASE = None,
       json_stringify = (\<lambda>indent vc. ''{id:'' @ vc_id vc @ ''}''),
       sha256_hex = (\<lambda>s. ''9f86d081884c7d659a2feaa0c55ad015a3bf4f1b2b0b822cd15d6c15b0f00a08''),
       randomBytes16_hex = ''000102030405060708090a0b0c0d0e0f'',
       uuidv4 = (\<lambda>n. ''1b4e28ba-2fa1-4d3b-a3f5-ef19b5a7633b''),
       js_String = (\<lambda>v. Inr ''[object Object]''),
       url_resolve = (\<lambda>rel base. Inr (base @ rel)),
       url_origin = (\<lambda>wid. Inr ''https://user.example.org''),
       put_fault = (\<lambda>url. None) \<rparr>"

definition failingAt :: "string \<Rightarrow> string \<Rightarrow> env" where
  "failingAt url m = testEnv\<lparr>put_fault := (\<lambda>x. if x = url then Some m else None)\<rparr>"

text \<open>An environment in which no value that is not a string can be converted to text.\<close>

definition throwingEnv :: env where
  "throwingEnv =
     testEnv\<lparr>js_String := (\<lambda>v. Inl (Error ''Cannot convert object to primitive value''))\<rparr>"

definition otherEnv :: env where
  "otherEnv =
     testEnv\<lparr> randomBytes16_hex := ''ffffffffffffffffffffffffffffffff'',
              sha256_hex := (\<lambda>s. ''e3b0c44298fc1c149afbf4c8996fb92427ae41e4649b934ca495991b7852b855'') \<rparr>"

definition testClock :: clock where
  "testClock = (\<lambda>k. ''2025-01-15T10:30:00.000Z'')"

definition laterClock :: clock where
  "laterClock = (\<lambda>k. ''2025-01-15T10:30:01.000Z'')"

definition driftClock :: clock where
  "driftClock =
     (\<lambda>k. if k < 2 then ''2025-01-15T10:30:00.000Z'' else ''2025-01-15T10:30:09.999Z'')"

definition testUser :: user where
  "testUser =
     \<lparr> webid = ''https://user.example.org/profile/card#me'', sub = Some ''test-user'',
       iss = Some ''http://localhost:3100'', aud = Some ''pip.gov.uk'' \<rparr>"


definition emptyWorld :: world where
  "emptyWorld = \<lparr> puts = [], console = [], uuids_taken = 0 \<rparr>"

definition podUrl0 :: string where
  "podUrl0 = ''https://pod.example.org/''"

definition vcId0 :: string where
  "vcId0 = ''urn:uuid:1b4e28ba-2fa1-4d3b-a3f5-ef19b5a7633b''"

definition fullUrl0 :: string where
  "fullUrl0 =
     ''https://pod.example.org/credentials/urn:uuid:1b4e28ba-2fa1-4d3b-a3f5-ef19b5a7633b''"

text \<open>The credential of the issue handler, the one of the preview handler, and a preview whose benefit type holds double quotes.\<close>

definition testVcData :: vc_data where
  "testVcData =
     \<lparr> vd_id = ''urn:uuid:1b4e28ba-2fa1-4d3b-a3f5-ef19b5a7633b'',
       vd_webid = ''https://user.example.org/profile/card#me'',
       vd_benefitData = issueBenefitData, vd_preview = Some False \<rparr>"

definition previewVcData :: vc_data where
  "previewVcData =
     \<lparr> vd_id = ''urn:uuid:1b4e28ba-2fa1-4d3b-a3f5-ef19b5a7633b'',
       vd_webid = ''https://user.example.org/profile/card#me'',
       vd_benefitData = previewBenefitData, vd_preview = Some True \<rparr>"

definition quotedVcData :: vc_data where
  \<open>quotedVcData =
     previewVcData\<lparr>vd_benefitData := previewBenefitData\<lparr>benefitType := ''PIP "Enhanced"''\<rparr>\<rparr>\<close>

text \<open>A preview whose benefit type closes the string literal it is pasted into and goes on with Turtle of its own.\<close>

definition injectedVcData :: vc_data where
  \<open>injectedVcData =
     previewVcData\<lparr>vd_benefitData := previewBenefitData
       \<lparr>benefitType := ''PIP" ; cred:proof [ a cred:Proof ] ; dc:source "x''\<rparr>\<rparr>\<close>

text \<open>
  The credential the preview handler encodes for a bearer token whose \<^verbatim>\<open>webid\<close> claim
  closes the \<^verbatim>\<open><...>\<close> it is pasted into and goes on with Turtle of its own.
\<close>

definition forgedWebidVcData :: vc_data where
  \<open>forgedWebidVcData =
     previewVcData\<lparr>vd_webid := ''x> ; cred:proof [ a cred:Proof ] ; dc:source <y''\<rparr>\<close>

definition testStored :: stored_vc where
  "testStored =
     \<lparr> jsonLd = generateJsonLdVc testEnv testClock testVcData,
       turtle = generateTurtleVc testEnv testClock testVcData \<rparr>"

section \<open>Properties of the encoders\<close>

subsection \<open>Searching a text that is cut by a delimiter\<close>

text \<open>
  A character that does not occur in the text searched for cuts the search in two: an
  occurrence lies wholly before or wholly after it. The template puts such a character
  (\<^verbatim>\<open><\<close>, \<^verbatim>\<open>>\<close> or a double quote) on both sides of every value it inserts.
\<close>

lemma prefix_delim: "c \<notin> set p \<Longrightarrow> prefix p (c # v) \<longleftrightarrow> p = []"
  by (cases p) auto

lemma sublist_append_delim:
  "c \<notin> set p \<Longrightarrow> sublist p (u @ c # v) \<longleftrightarrow> sublist p u \<or> sublist p v"
  by (auto simp: sublist_append sublist_Cons_right prefix_delim dest: suffix_imp_sublist)

lemma prefix_append_delim:
  "c \<notin> set p \<Longrightarrow> prefix p (u @ c # v) \<longleftrightarrow> prefix p u"
  by (auto simp: prefix_append prefix_delim)

lemma occurrences_append_delim:
  "c \<notin> set p \<Longrightarrow> p \<noteq> [] \<Longrightarrow>
     occurrences p (u @ c # v) = occurrences p u + occurrences p v"
proof (induction u)
  case Nil
  then show ?case by (simp add: prefix_delim)
next
  case (Cons x u)
  have "prefix p (x # u @ c # v) \<longleftrightarrow> prefix p (x # u)"
    using prefix_append_delim[OF Cons.prems(1), of "x # u" v] by simp
  with Cons show ?case by simp
qed

lemma occurrences_0_iff: "p \<noteq> [] \<Longrightarrow> occurrences p s = 0 \<longleftrightarrow> \<not> sublist p s"
  by (induction s) (auto simp: sublist_Cons_right)

subsection \<open>The proof block\<close>

lemma jsonld_preview_no_proof: "previewOf vd \<Longrightarrow> vc_proof (generateJsonLdVc e clk vd) = None"
  by (simp add: generateJsonLdVc_def Let_def)

lemma jsonld_signed_has_proof:
  "\<not> previewOf vd \<Longrightarrow> vc_proof (generateJsonLdVc e clk vd) \<noteq> None"
  by (simp add: generateJsonLdVc_def Let_def)

lemma turtle_preview_no_token:
  assumes "previewOf vd" and "valuesFreeOf ''cred:proof'' e clk vd"
  shows "\<not> sublist ''cred:proof'' (generateTurtleVc e clk vd)"
  using assms
  by (simp add: generateTurtleVc_def turtlePrefixes_def totalAmountPart_def proofPart_def
      valuesFreeOf_def Let_def sublist_append_delim sublist_code prefix_code
      split: option.splits)

text \<open>The search is not blind: a signed credential's Turtle text does hold the statement.\<close>

lemma proofPart_signed:
  "\<not> previewOf vd \<Longrightarrow>
     \<exists>ss. proofPart e clk vd = '' ;\<newline>    '' @ ''cred:proof ['' @ ss"
  by (simp add: proofPart_def)

lemma turtle_signed_has_proof:
  assumes "\<not> previewOf vd"
  shows "sublist ''cred:proof ['' (generateTurtleVc e clk vd)"
proof -
  from proofPart_signed[OF assms] obtain ss where
    pp: "proofPart e clk vd = '' ;\<newline>    '' @ ''cred:proof ['' @ ss" by blast
  obtain ps where g: "generateTurtleVc e clk vd = ps @ proofPart e clk vd @ '' .''"
    unfolding generateTurtleVc_def Let_def
    by (metis append.assoc)
  have "generateTurtleVc e clk vd = (ps @ '' ;\<newline>    '') @ ''cred:proof ['' @ (ss @ '' .'')"
    unfolding g pp by simp
  then show ?thesis
    unfolding sublist_def by blast
qed

lemma turtle_preview_occurrences:
  assumes "previewOf vd"
  shows "occurrences ''cred:proof'' (generateTurtleVc e clk vd) =
         occurrencesInValues ''cred:proof'' e clk vd"
  using assms
  by (simp add: generateTurtleVc_def turtlePrefixes_def totalAmountPart_def proofPart_def
      occurrencesInValues_def Let_def occurrences_append_delim prefix_code
      split: option.splits)

text \<open>
  What the template itself does for an unsigned (preview) credential: the JSON-LD
  document has no \<^verbatim>\<open>proof\<close> key at all (not an empty one), and the Turtle template
  contributes no \<^verbatim>\<open>cred:proof\<close>: the text occurs in the output exactly as often as it
  occurs inside the values inserted. So for a credential whose values do not contain
  that text it occurs nowhere in the Turtle text.
\<close>

lemma preview_template_adds_no_proof:
  assumes "vd_preview vd = Some True"
  shows "vc_proof (generateJsonLdVc e clk vd) = None \<and>
         occurrences ''cred:proof'' (generateTurtleVc e clk vd) =
           occurrencesInValues ''cred:proof'' e clk vd \<and>
         (valuesFreeOf ''cred:proof'' e clk vd \<longrightarrow>
            \<not> sublist ''cred:proof'' (generateTurtleVc e clk vd))"
  using assms jsonld_preview_no_proof turtle_preview_no_token turtle_preview_occurrences
  by (simp add: previewOf_def)

text \<open>The credential the preview handler encodes for an ordinary WebID: no proof in either encoding.\<close>

lemma preview_handler_data_has_no_proof:
  "vd_preview previewVcData = Some True \<and>
   valuesFreeOf ''cred:proof'' testEnv testClock previewVcData \<and>
   vc_proof (generateJsonLdVc testEnv testClock previewVcData) = None \<and>
   occurrences ''cred:proof'' (generateTurtleVc testEnv testClock previewVcData) = 0 \<and>
   \<not> sublist ''cred:proof'' (generateTurtleVc testEnv testClock previewVcData)"
proof -
  have p: "vd_preview previewVcData = Some True"
    by (simp add: previewVcData_def)
  have f: "valuesFreeOf ''cred:proof'' testEnv testClock previewVcData"
    by (simp add: valuesFreeOf_def previewVcData_def previewBenefitData_def testEnv_def
        testClock_def issuerId_def sublist_code prefix_code)
  have z: "occurrencesInValues ''cred:proof'' testEnv testClock previewVcData = 0"
    by (simp add: occurrencesInValues_def previewVcData_def previewBenefitData_def testEnv_def
        testClock_def issuerId_def prefix_code)
  from preview_template_adds_no_proof[OF p, of testEnv testClock] p f z
  show ?thesis by simp
qed

text \<open>
  \<^bold>\<open>Claim C3.\<close> The claim asks that for every unsigned (preview) credential neither
  encoding contains a proof block: no \<^verbatim>\<open>proof\<close> key in the JSON-LD document and no
  \<^verbatim>\<open>cred:proof\<close> statement in the Turtle text. The code does not keep the Turtle half.
  The preview handler takes the WebID from the bearer token as it is, and the encoder
  pastes it between \<^verbatim>\<open><\<close> and \<^verbatim>\<open>>\<close> unescaped. For the WebID of \<open>forgedWebidVcData\<close> the
  credential is unsigned and its JSON-LD document has no proof, yet its Turtle text
  holds the line below, which states a \<^verbatim>\<open>cred:proof\<close> of the credential.
\<close>

theorem C3_unsigned_turtle_with_proof_statement:
  \<open>vd_preview forgedWebidVcData = Some True \<and>
   vd_benefitData forgedWebidVcData = previewBenefitData \<and>
   vc_proof (generateJsonLdVc testEnv testClock forgedWebidVcData) = None \<and>
   sublist ''    cred:credentialSubject <x> ; cred:proof [ a cred:Proof ] ; dc:source <y> ;''
     (generateTurtleVc testEnv testClock forgedWebidVcData)\<close>
proof -
  have p: "previewOf forgedWebidVcData"
    by (simp add: previewOf_def forgedWebidVcData_def previewVcData_def)
  have s: \<open>sublist
      ''    cred:credentialSubject <x> ; cred:proof [ a cred:Proof ] ; dc:source <y> ;''
      (generateTurtleVc testEnv testClock forgedWebidVcData)\<close>
    by (simp add: generateTurtleVc_def turtlePrefixes_def totalAmountPart_def proofPart_def
        previewOf_def Let_def forgedWebidVcData_def previewVcData_def previewBenefitData_def
        testEnv_def testClock_def issuerId_def sublist_code prefix_code)
  from p s jsonld_preview_no_proof[OF p, of testEnv testClock] show ?thesis
    by (simp add: forgedWebidVcData_def previewVcData_def)
qed

subsection \<open>What the encoders depend on\<close>

text \<open>
  \<^bold>\<open>Claim C4\<close>, as the code has it. The encoders read the wall clock while they encode: the
  credential data carries no issuance time. For an unsigned credential the JSON-LD
  document is a function of the credential's fields, the configured issuer and the one
  clock reading that becomes \<^verbatim>\<open>issuanceDate\<close>; the Turtle text is a function of the fields,
  the issuer and the two readings that become \<^verbatim>\<open>cred:issuanceDate\<close> and \<^verbatim>\<open>dc:created\<close>.
  Nothing else of the environment (random bytes, hashing, later readings) has any
  influence, so encoding twice gives identical output whenever those readings agree.
\<close>

theorem C4_encoders_depend_on_clock_readings:
  assumes "vd_preview vd = Some True"
      and "issuerId e = issuerId e'"
      and "clk 0 = clk' 0"
  shows "generateJsonLdVc e clk vd = generateJsonLdVc e' clk' vd \<and>
         issuanceDate (generateJsonLdVc e clk vd) = clk 0 \<and>
         (clk 1 = clk' 1 \<longrightarrow> generateTurtleVc e clk vd = generateTurtleVc e' clk' vd)"
  using assms
  by (simp add: generateJsonLdVc_def generateTurtleVc_def proofPart_def previewOf_def Let_def)

text \<open>
  Two environments that differ in their random bytes and hash function, and two clocks
  that agree on the first two readings only.
\<close>

theorem C4_encoders_depend_on_clock_readings_witness:
  "vd_preview previewVcData = Some True \<and> issuerId testEnv = issuerId otherEnv \<and>
   testClock 0 = driftClock 0 \<and> testClock 1 = driftClock 1 \<and>
   generateJsonLdVc testEnv testClock previewVcData =
     generateJsonLdVc otherEnv driftClock previewVcData \<and>
   issuanceDate (generateJsonLdVc testEnv testClock previewVcData) = testClock 0 \<and>
   generateTurtleVc testEnv testClock previewVcData =
     generateTurtleVc otherEnv driftClock previewVcData"
proof -
  have p: "vd_preview previewVcData = Some True"
    by (simp add: previewVcData_def)
  have i: "issuerId testEnv = issuerId otherEnv"
    by (simp add: issuerId_def otherEnv_def testEnv_def)
  have c0: "testClock 0 = driftClock 0" and c1: "testClock 1 = driftClock 1"
    by (simp_all add: testClock_def driftClock_def)
  from C4_encoders_depend_on_clock_readings
         [of previewVcData testEnv otherEnv testClock driftClock, OF p i c0] p i c0 c1
  show ?thesis by blast
qed

text \<open>
  The claim as stated fails: the same unsigned credential, encoded one second later, gives
  a different JSON-LD document and a different Turtle text.
\<close>

theorem C4_encoding_twice_differs:
  "generateJsonLdVc testEnv testClock previewVcData \<noteq>
     generateJsonLdVc testEnv laterClock previewVcData \<and>
   generateTurtleVc testEnv testClock previewVcData \<noteq>
     generateTurtleVc testEnv laterClock previewVcData"
proof -
  have "issuanceDate (generateJsonLdVc testEnv testClock previewVcData) \<noteq>
        issuanceDate (generateJsonLdVc testEnv laterClock previewVcData)"
    by (simp add: generateJsonLdVc_def Let_def testClock_def laterClock_def previewVcData_def
        previewOf_def)
  then have a: "generateJsonLdVc testEnv testClock previewVcData \<noteq>
                generateJsonLdVc testEnv laterClock previewVcData"
    by auto
  have b: "generateTurtleVc testEnv testClock previewVcData \<noteq>
           generateTurtleVc testEnv laterClock previewVcData"
    by (simp add: generateTurtleVc_def Let_def testClock_def laterClock_def previewVcData_def
        testEnv_def issuerId_def)
  from a b show ?thesis by simp
qed

subsection \<open>The two encodings side by side\<close>

text \<open>The Turtle encoder never reads \<^verbatim>\<open>benefitData.components\<close>.\<close>

lemma generateTurtleVc_ignores_components:
  "generateTurtleVc e clk (vd\<lparr>vd_benefitData := (vd_benefitData vd)\<lparr>components := c\<rparr>\<rparr>) =
   generateTurtleVc e clk vd"
  by (simp add: generateTurtleVc_def totalAmountPart_def proofPart_def previewOf_def Let_def)

text \<open>
  \<^bold>\<open>Claim C1.\<close> The claim asks that every claim value of the JSON-LD \<^verbatim>\<open>credentialSubject\<close>,
  the components breakdown included, is bound in the Turtle output too. The code does
  not do that. For the credential of the issue handler the JSON-LD document carries the
  components breakdown, while the Turtle text is, character for character, the text of
  the same credential without any components: the breakdown is not in it.
\<close>

theorem C1_turtle_omits_components:
  "cs_components (credentialSubject (generateJsonLdVc testEnv testClock testVcData)) =
     Some (ComponentMap [(''dailyLiving'', ''Standard - '' @ CHR 0xA3 # ''68.10''),
                         (''mobility'', ''Enhanced - '' @ CHR 0xA3 # ''94.80'')]) \<and>
   cs_components (credentialSubject (generateJsonLdVc testEnv testClock
     (testVcData\<lparr>vd_benefitData := issueBenefitData\<lparr>components := None\<rparr>\<rparr>))) = None \<and>
   generateTurtleVc testEnv testClock testVcData =
     generateTurtleVc testEnv testClock
       (testVcData\<lparr>vd_benefitData := issueBenefitData\<lparr>components := None\<rparr>\<rparr>)"
  by (simp add: generateJsonLdVc_def generateTurtleVc_def totalAmountPart_def proofPart_def
      previewOf_def Let_def testVcData_def issueBenefitData_def truthyStr_def)

text \<open>
  \<^bold>\<open>Claim C6.\<close> The claim asks that a double quote or a newline inside a claim value is
  escaped in the Turtle text. The code inserts the value as it is. For a benefit type
  \<^verbatim>\<open>PIP "Enhanced"\<close> the text holds the line below, whose string literal ends at the second
  quote, and no backslash occurs anywhere in the text.
\<close>

theorem C6_turtle_quote_not_escaped:
  \<open>sublist ''    schema:benefitType "PIP "Enhanced"" ;''
     (generateTurtleVc testEnv testClock quotedVcData) \<and>
   CHR 0x5C \<notin> set (generateTurtleVc testEnv testClock quotedVcData)\<close>
  by (simp add: generateTurtleVc_def turtlePrefixes_def totalAmountPart_def proofPart_def
      previewOf_def Let_def quotedVcData_def previewVcData_def previewBenefitData_def
      testEnv_def testClock_def issuerId_def sublist_code prefix_code)

text \<open>
  What the missing escaping allows: a value can close the literal it is pasted into and
  add statements of its own. Here the Turtle text of an unsigned credential gains a
  \<^verbatim>\<open>cred:proof\<close> statement that the template did not write; the one occurrence of
  the text lies inside the value.
\<close>

lemma unescaped_value_adds_statement:
  \<open>vd_preview injectedVcData = Some True \<and>
   sublist ''    schema:benefitType "PIP" ; cred:proof [ a cred:Proof ] ; dc:source "x" ;''
     (generateTurtleVc testEnv testClock injectedVcData) \<and>
   occurrences ''cred:proof'' (generateTurtleVc testEnv testClock injectedVcData) = 1 \<and>
   occurrencesInValues ''cred:proof'' testEnv testClock injectedVcData = 1\<close>
proof -
  have p: "previewOf injectedVcData"
    by (simp add: previewOf_def injectedVcData_def previewVcData_def)
  have v: "occurrencesInValues ''cred:proof'' testEnv testClock injectedVcData = 1"
    by (simp add: occurrencesInValues_def injectedVcData_def previewVcData_def
        previewBenefitData_def testEnv_def testClock_def issuerId_def prefix_code)
  have s: \<open>sublist
      ''    schema:benefitType "PIP" ; cred:proof [ a cred:Proof ] ; dc:source "x" ;''
      (generateTurtleVc testEnv testClock injectedVcData)\<close>
    by (simp add: generateTurtleVc_def turtlePrefixes_def totalAmountPart_def proofPart_def
        previewOf_def Let_def injectedVcData_def previewVcData_def previewBenefitData_def
        testEnv_def testClock_def issuerId_def sublist_code prefix_code)
  from p v s turtle_preview_occurrences[OF p, of testEnv testClock] show ?thesis
    by (simp add: previewOf_def split: option.splits)
qed

section \<open>Properties of the pod persistence\<close>

subsection \<open>The permission step\<close>

text \<open>The permission step only ever adds to what was written and printed before it.\<close>

lemma puts_setCredentialPermissions:
  "prefix (puts w) (puts (setCredentialPermissions e podUrl vcId u w))"
  by (simp add: setCredentialPermissions_def putResource_def logError_def logInfo_def
      split: sum.splits option.splits)

lemma console_setCredentialPermissions:
  "prefix (console w) (console (setCredentialPermissions e podUrl vcId u w))"
  by (simp add: setCredentialPermissions_def putResource_def logError_def logInfo_def
      split: sum.splits option.splits)

lemma setCredentialPermissions_writes:
  assumes "url_resolve e (''credentials/'' @ vcId @ ''.jsonld.acl'') podUrl = Inr aclUrl"
      and "put_fault e aclUrl = None"
  shows "puts (setCredentialPermissions e podUrl vcId u w) =
           puts w @ [\<lparr> put_url = aclUrl, put_content = aclDocument (webid u) vcId,
                        put_contentType = ''text/turtle'', put_user = webid u \<rparr>]"
  using assms
  by (simp add: setCredentialPermissions_def putResource_def logInfo_def)

text \<open>A successful \<open>storeCredential\<close> ends with the permission step.\<close>

lemma storeCredential_success:
  assumes "storeCredential e clk podUrl vcId vcData u w = (Inr r, w')"
  shows "\<exists>fullUrl w3.
           url_resolve e (''credentials/'' @ vcId) podUrl = Inr fullUrl \<and>
           r = \<lparr> success = True, loc_jsonld = fullUrl @ ''.jsonld'',
                 loc_turtle = fullUrl @ ''.ttl'' \<rparr> \<and>
           w' = setCredentialPermissions e podUrl vcId u w3"
  using assms
  by (auto simp: storeCredential_def storeFailed_def Let_def split: sum.splits prod.splits)

text \<open>
  A successful \<open>storeCredential\<close> whose access-control request the pod accepts ends
  with that request: one document, written next to the JSON-LD artifact.
\<close>

lemma storeCredential_writes_acl_last:
  assumes "fst (storeCredential e clk podUrl vcId vcData u w) = Inr r"
      and "url_resolve e (''credentials/'' @ vcId @ ''.jsonld.acl'') podUrl = Inr aclUrl"
      and "put_fault e aclUrl = None"
  shows "last (puts (snd (storeCredential e clk podUrl vcId vcData u w))) =
           \<lparr> put_url = aclUrl,
             put_content = aclDocument (webid u) vcId,
             put_contentType = ''text/turtle'',
             put_user = webid u \<rparr>"
proof -
  from assms(1)
  have "storeCredential e clk podUrl vcId vcData u w =
          (Inr r, snd (storeCredential e clk podUrl vcId vcData u w))"
    by (simp add: prod_eq_iff)
  then obtain w3 where
    "snd (storeCredential e clk podUrl vcId vcData u w) =
       setCredentialPermissions e podUrl vcId u w3"
    using storeCredential_success by blast
  then show ?thesis
    using setCredentialPermissions_writes[OF assms(2,3)]
    by simp
qed

text \<open>
  \<^bold>\<open>Claim C7.\<close> The claim asks that the grants written with a persisted credential give
  the owner, EON and the authenticated agents their modes on both format artifacts.
  The code does not do that. An issue request stores the two artifacts at
  \<^verbatim>\<open><pod>/credentials/urn:uuid:<id>.jsonld\<close> and \<^verbatim>\<open>.ttl\<close> and writes a single access-control
  document, at \<^verbatim>\<open><pod>/credentials/urn:uuid:<id>.jsonld.acl\<close>; none is written for the
  Turtle artifact. Every authorization of that document has the line
  \<^verbatim>\<open>acl:accessTo <urn:uuid:<id>.jsonld> , <urn:uuid:<id>.ttl>\<close>: the resources it names
  are IRIs of the scheme \<^verbatim>\<open>urn\<close>, not the locations of the stored artifacts, which
  occur nowhere in the document.
\<close>

theorem C7_grants_do_not_name_stored_artifacts:
  "map put_url
     (puts (snd (issue testEnv testClock testUser (JBool True) (JStr podUrl0) emptyWorld))) =
     [ fullUrl0 @ ''.jsonld'', fullUrl0 @ ''.ttl'',
       podUrl0 @ ''credentials/index.ttl'', fullUrl0 @ ''.jsonld.acl'' ] \<and>
   put_content
     (last (puts (snd (issue testEnv testClock testUser (JBool True) (JStr podUrl0)
                         emptyWorld)))) =
     aclDocument (webid testUser) vcId0 \<and>
   occurrences
     (''    acl:accessTo <urn:uuid:1b4e28ba-2fa1-4d3b-a3f5-ef19b5a7633b.jsonld> , '' @
      ''<urn:uuid:1b4e28ba-2fa1-4d3b-a3f5-ef19b5a7633b.ttl> ;'')
     (aclDocument (webid testUser) vcId0) = 3 \<and>
   \<not> sublist ''https://pod.example.org/'' (aclDocument (webid testUser) vcId0)"
proof -
  have run: "puts (snd (issue testEnv testClock testUser (JBool True) (JStr podUrl0)
                         emptyWorld)) =
      [ \<lparr> put_url = fullUrl0 @ ''.jsonld'',
          put_content = json_stringify testEnv 2
            (generateJsonLdVc testEnv testClock
               \<lparr> vd_id = vcId0, vd_webid = webid testUser, vd_benefitData = issueBenefitData,
                 vd_preview = Some False \<rparr>),
          put_contentType = ''application/ld+json'', put_user = webid testUser \<rparr>,
        \<lparr> put_url = fullUrl0 @ ''.ttl'',
          put_content = generateTurtleVc testEnv (later 2 testClock)
               \<lparr> vd_id = vcId0, vd_webid = webid testUser, vd_benefitData = issueBenefitData,
                 vd_preview = Some False \<rparr>,
          put_contentType = ''text/turtle'', put_user = webid testUser \<rparr>,
        \<lparr> put_url = podUrl0 @ ''credentials/index.ttl'',
          put_content = indexEntry (podUrl0 @ ''credentials/'') vcId0 (later 5 testClock),
          put_contentType = ''text/turtle'', put_user = webid testUser \<rparr>,
        \<lparr> put_url = fullUrl0 @ ''.jsonld.acl'',
          put_content = aclDocument (webid testUser) vcId0,
          put_contentType = ''text/turtle'', put_user = webid testUser \<rparr> ]"
    by (simp add: issue_def toStr_def storeCredential_def putResource_def
        updateCredentialsIndex_def setCredentialPermissions_def logInfo_def Let_def
        testEnv_def emptyWorld_def podUrl0_def vcId0_def fullUrl0_def)
  have occ: "occurrences
     (''    acl:accessTo <urn:uuid:1b4e28ba-2fa1-4d3b-a3f5-ef19b5a7633b.jsonld> , '' @
      ''<urn:uuid:1b4e28ba-2fa1-4d3b-a3f5-ef19b5a7633b.ttl> ;'')
     (aclDocument (webid testUser) vcId0) = 3"
    by (simp add: aclDocument_def testUser_def vcId0_def prefix_code)
  have nowhere: "\<not> sublist ''https://pod.example.org/'' (aclDocument (webid testUser) vcId0)"
    by (simp add: aclDocument_def testUser_def vcId0_def sublist_code prefix_code)
  from occ nowhere show ?thesis
    by (simp add: run)
qed

subsection \<open>A failing format write\<close>

text \<open>When the first write fails, nothing is written and the same kind of error is thrown.\<close>

lemma storeCredential_first_write_fails:
  assumes "url_resolve e (''credentials/'' @ vcId) podUrl = Inr fullUrl"
      and "put_fault e (fullUrl @ ''.jsonld'') = Some m"
  shows "storeCredential e clk podUrl vcId vcData u w =
           (Inl (Error (''Failed to store credential: HTTP PUT failed: '' @ m)),
            w\<lparr>console := console w @
                 [Err ''Pod storage error:'' (''HTTP PUT failed: '' @ m)]\<rparr>)"
  using assms
  by (simp add: storeCredential_def putResource_def storeFailed_def logError_def)

text \<open>
  \<^bold>\<open>Claim C2\<close>, as the code has it. The code has no partial-write outcome. When the
  JSON-LD write succeeds and the Turtle write fails with message \<open>m\<close>, \<open>storeCredential\<close>
  throws \<^verbatim>\<open>Failed to store credential: HTTP PUT failed: m\<close>, a failure of the whole call.
  The JSON-LD request has been made and is not undone, the error is printed, and neither
  the index nor the access-control document is written.
\<close>

theorem C2_second_write_failure:
  assumes "url_resolve e (''credentials/'' @ vcId) podUrl = Inr fullUrl"
      and "put_fault e (fullUrl @ ''.jsonld'') = None"
      and "put_fault e (fullUrl @ ''.ttl'') = Some m"
  shows "storeCredential e clk podUrl vcId vcData u w =
           (Inl (Error (''Failed to store credential: HTTP PUT failed: '' @ m)),
            w\<lparr>puts := puts w @
                 [\<lparr> put_url = fullUrl @ ''.jsonld'',
                    put_content = json_stringify e 2 (jsonLd vcData),
                    put_contentType = ''application/ld+json'',
                    put_user = webid u \<rparr>],
              console := console w @
                 [Err ''Pod storage error:'' (''HTTP PUT failed: '' @ m)]\<rparr>)"
  using assms
  by (simp add: storeCredential_def putResource_def storeFailed_def logError_def)

theorem C2_second_write_failure_witness:
  "url_resolve (failingAt (fullUrl0 @ ''.ttl'') ''socket hang up'')
     (''credentials/'' @ vcId0) podUrl0 = Inr fullUrl0 \<and>
   put_fault (failingAt (fullUrl0 @ ''.ttl'') ''socket hang up'') (fullUrl0 @ ''.jsonld'') = None \<and>
   put_fault (failingAt (fullUrl0 @ ''.ttl'') ''socket hang up'') (fullUrl0 @ ''.ttl'') =
     Some ''socket hang up'' \<and>
   storeCredential (failingAt (fullUrl0 @ ''.ttl'') ''socket hang up'') testClock podUrl0 vcId0
       testStored testUser emptyWorld =
     (Inl (Error ''Failed to store credential: HTTP PUT failed: socket hang up''),
      \<lparr> puts = [\<lparr> put_url = fullUrl0 @ ''.jsonld'',
                  put_content = json_stringify testEnv 2 (jsonLd testStored),
                  put_contentType = ''application/ld+json'',
                  put_user = webid testUser \<rparr>],
        console = [Err ''Pod storage error:'' ''HTTP PUT failed: socket hang up''],
        uuids_taken = 0 \<rparr>)"
proof -
  let ?e = "failingAt (fullUrl0 @ ''.ttl'') ''socket hang up''"
  have a: "url_resolve ?e (''credentials/'' @ vcId0) podUrl0 = Inr fullUrl0"
    by (simp add: failingAt_def testEnv_def vcId0_def podUrl0_def fullUrl0_def)
  have b: "put_fault ?e (fullUrl0 @ ''.jsonld'') = None"
    by (simp add: failingAt_def testEnv_def)
  have c: "put_fault ?e (fullUrl0 @ ''.ttl'') = Some ''socket hang up''"
    by (simp add: failingAt_def testEnv_def)
  have d: "json_stringify ?e = json_stringify testEnv"
    by (simp add: failingAt_def)
  from C2_second_write_failure[OF a b c, of testClock testStored testUser emptyWorld] a b c d
  show ?thesis by (simp add: emptyWorld_def)
qed

text \<open>
  The claim as stated fails: what the caller gets when only the Turtle write fails is the
  thrown error, and it is the very error it gets when the JSON-LD write fails instead.
  Nothing in the outcome names the format that is missing.
\<close>

theorem C2_no_partial_write_outcome:
  "fst (storeCredential (failingAt (fullUrl0 @ ''.ttl'') ''socket hang up'') testClock podUrl0
          vcId0 testStored testUser emptyWorld) =
     Inl (Error ''Failed to store credential: HTTP PUT failed: socket hang up'') \<and>
   fst (storeCredential (failingAt (fullUrl0 @ ''.jsonld'') ''socket hang up'') testClock podUrl0
          vcId0 testStored testUser emptyWorld) =
     Inl (Error ''Failed to store credential: HTTP PUT failed: socket hang up'')"
  by (simp add: storeCredential_def putResource_def storeFailed_def failingAt_def testEnv_def
      vcId0_def podUrl0_def fullUrl0_def)

subsection \<open>A failing index update\<close>

text \<open>
  \<^bold>\<open>Claim C5\<close>, as the code has it. When both format writes succeed and the index
  request fails with message \<open>m\<close>, \<open>storeCredential\<close> still returns
  \<^verbatim>\<open>{ success: true, locations }\<close>; both format requests stay written (nothing is rolled
  back), the failure is printed as \<^verbatim>\<open>Index update error:\<close>, and the permission step runs
  next. The returned object has the fields \<open>success\<close> and the two locations only: the
  index failure is not in it.
\<close>

theorem C5_index_failure_is_swallowed:
  assumes "url_resolve e (''credentials/'' @ vcId) podUrl = Inr fullUrl"
      and "put_fault e (fullUrl @ ''.jsonld'') = None"
      and "put_fault e (fullUrl @ ''.ttl'') = None"
      and "url_resolve e ''credentials/index.ttl'' podUrl = Inr indexUrl"
      and "url_resolve e ''credentials/'' podUrl = Inr containerUrl"
      and "put_fault e indexUrl = Some m"
  shows "storeCredential e clk podUrl vcId vcData u w =
           (Inr \<lparr> success = True, loc_jsonld = fullUrl @ ''.jsonld'',
                  loc_turtle = fullUrl @ ''.ttl'' \<rparr>,
            setCredentialPermissions e podUrl vcId u
              (w\<lparr>puts := puts w @
                   [\<lparr> put_url = fullUrl @ ''.jsonld'',
                      put_content = json_stringify e 2 (jsonLd vcData),
                      put_contentType = ''application/ld+json'', put_user = webid u \<rparr>,
                    \<lparr> put_url = fullUrl @ ''.ttl'', put_content = turtle vcData,
                      put_contentType = ''text/turtle'', put_user = webid u \<rparr>],
                 console := console w @
                   [Err ''Index update error:'' (''HTTP PUT failed: '' @ m)]\<rparr>))
         \<and> prefix (puts w @
                 [\<lparr> put_url = fullUrl @ ''.jsonld'',
                    put_content = json_stringify e 2 (jsonLd vcData),
                    put_contentType = ''application/ld+json'', put_user = webid u \<rparr>,
                  \<lparr> put_url = fullUrl @ ''.ttl'', put_content = turtle vcData,
                    put_contentType = ''text/turtle'', put_user = webid u \<rparr>])
              (puts (snd (storeCredential e clk podUrl vcId vcData u w)))
         \<and> prefix (console w @ [Err ''Index update error:'' (''HTTP PUT failed: '' @ m)])
              (console (snd (storeCredential e clk podUrl vcId vcData u w)))"
proof -
  define w3 where "w3 =
    w\<lparr>puts := puts w @
         [\<lparr> put_url = fullUrl @ ''.jsonld'',
            put_content = json_stringify e 2 (jsonLd vcData),
            put_contentType = ''application/ld+json'', put_user = webid u \<rparr>,
          \<lparr> put_url = fullUrl @ ''.ttl'', put_content = turtle vcData,
            put_contentType = ''text/turtle'', put_user = webid u \<rparr>],
       console := console w @ [Err ''Index update error:'' (''HTTP PUT failed: '' @ m)]\<rparr>"
  have run: "storeCredential e clk podUrl vcId vcData u w =
      (Inr \<lparr> success = True, loc_jsonld = fullUrl @ ''.jsonld'',
             loc_turtle = fullUrl @ ''.ttl'' \<rparr>,
       setCredentialPermissions e podUrl vcId u w3)"
    using assms
    by (simp add: storeCredential_def putResource_def updateCredentialsIndex_def logError_def
        Let_def w3_def)
  have "prefix (puts w3) (puts (setCredentialPermissions e podUrl vcId u w3))"
    by (rule puts_setCredentialPermissions)
  moreover have "prefix (console w3) (console (setCredentialPermissions e podUrl vcId u w3))"
    by (rule console_setCredentialPermissions)
  ultimately show ?thesis
    by (simp add: run w3_def)
qed

theorem C5_index_failure_is_swallowed_witness:
  "url_resolve (failingAt (podUrl0 @ ''credentials/index.ttl'') ''503'')
     (''credentials/'' @ vcId0) podUrl0 = Inr fullUrl0 \<and>
   put_fault (failingAt (podUrl0 @ ''credentials/index.ttl'') ''503'')
     (podUrl0 @ ''credentials/index.ttl'') = Some ''503'' \<and>
   fst (storeCredential (failingAt (podUrl0 @ ''credentials/index.ttl'') ''503'') testClock
          podUrl0 vcId0 testStored testUser emptyWorld) =
     Inr \<lparr> success = True, loc_jsonld = fullUrl0 @ ''.jsonld'',
           loc_turtle = fullUrl0 @ ''.ttl'' \<rparr> \<and>
   prefix
     [\<lparr> put_url = fullUrl0 @ ''.jsonld'',
        put_content = json_stringify testEnv 2 (jsonLd testStored),
        put_contentType = ''application/ld+json'', put_user = webid testUser \<rparr>,
      \<lparr> put_url = fullUrl0 @ ''.ttl'', put_content = turtle testStored,
        put_contentType = ''text/turtle'', put_user = webid testUser \<rparr>]
     (puts (snd (storeCredential (failingAt (podUrl0 @ ''credentials/index.ttl'') ''503'')
                   testClock podUrl0 vcId0 testStored testUser emptyWorld))) \<and>
   prefix [Err ''Index update error:'' ''HTTP PUT failed: 503'']
     (console (snd (storeCredential (failingAt (podUrl0 @ ''credentials/index.ttl'') ''503'')
                      testClock podUrl0 vcId0 testStored testUser emptyWorld)))"
proof -
  let ?e = "failingAt (podUrl0 @ ''credentials/index.ttl'') ''503''"
  have a: "url_resolve ?e (''credentials/'' @ vcId0) podUrl0 = Inr fullUrl0"
    by (simp add: failingAt_def testEnv_def vcId0_def podUrl0_def fullUrl0_def)
  have b: "put_fault ?e (fullUrl0 @ ''.jsonld'') = None"
    by (simp add: failingAt_def testEnv_def fullUrl0_def podUrl0_def)
  have c: "put_fault ?e (fullUrl0 @ ''.ttl'') = None"
    by (simp add: failingAt_def testEnv_def fullUrl0_def podUrl0_def)
  have d: "url_resolve ?e ''credentials/index.ttl'' podUrl0 =
             Inr (podUrl0 @ ''credentials/index.ttl'')"
    by (simp add: failingAt_def testEnv_def)
  have f: "url_resolve ?e ''credentials/'' podUrl0 = Inr (podUrl0 @ ''credentials/'')"
    by (simp add: failingAt_def testEnv_def)
  have g: "put_fault ?e (podUrl0 @ ''credentials/index.ttl'') = Some ''503''"
    by (simp add: failingAt_def testEnv_def)
  have j: "json_stringify ?e = json_stringify testEnv"
    by (simp add: failingAt_def)
  note run = C5_index_failure_is_swallowed
                [OF a b c d f g, of testClock testStored testUser emptyWorld]
  have k: "fst (storeCredential ?e testClock podUrl0 vcId0 testStored testUser emptyWorld) =
             Inr \<lparr> success = True, loc_jsonld = fullUrl0 @ ''.jsonld'',
                   loc_turtle = fullUrl0 @ ''.ttl'' \<rparr>"
    using run[THEN conjunct1] by simp
  have l: "prefix
     [\<lparr> put_url = fullUrl0 @ ''.jsonld'',
        put_content = json_stringify testEnv 2 (jsonLd testStored),
        put_contentType = ''application/ld+json'', put_user = webid testUser \<rparr>,
      \<lparr> put_url = fullUrl0 @ ''.ttl'', put_content = turtle testStored,
        put_contentType = ''text/turtle'', put_user = webid testUser \<rparr>]
     (puts (snd (storeCredential ?e testClock podUrl0 vcId0 testStored testUser emptyWorld)))"
    using run[THEN conjunct2, THEN conjunct1] by (simp add: emptyWorld_def j)
  have n: "prefix [Err ''Index update error:'' ''HTTP PUT failed: 503'']
     (console (snd (storeCredential ?e testClock podUrl0 vcId0 testStored testUser emptyWorld)))"
    using run[THEN conjunct2, THEN conjunct2] by (simp add: emptyWorld_def)
  from a g k l n show ?thesis by blast
qed

text \<open>
  The claim as stated fails: the result returned when the index request fails is the
  result returned when it succeeds. It has no field that reports the index update.
\<close>

theorem C5_index_failure_not_in_result:
  "fst (storeCredential (failingAt (podUrl0 @ ''credentials/index.ttl'') ''503'') testClock
          podUrl0 vcId0 testStored testUser emptyWorld) =
     fst (storeCredential testEnv testClock podUrl0 vcId0 testStored testUser emptyWorld) \<and>
   fst (storeCredential testEnv testClock podUrl0 vcId0 testStored testUser emptyWorld) =
     Inr \<lparr> success = True, loc_jsonld = fullUrl0 @ ''.jsonld'',
           loc_turtle = fullUrl0 @ ''.ttl'' \<rparr>"
  by (simp add: storeCredential_def putResource_def storeFailed_def failingAt_def testEnv_def
      Let_def vcId0_def podUrl0_def fullUrl0_def)

section \<open>Properties of the handlers\<close>

subsection \<open>Revocation\<close>



text \<open>
  The 500 answer: a truthy \<^verbatim>\<open>vcId\<close> or \<^verbatim>\<open>reason\<close> whose conversion to text throws, such as
  the object \<^verbatim>\<open>{ "toString": 1 }\<close>, makes the log line throw inside the \<^verbatim>\<open>try\<close>.
\<close>

lemma revoke_conversion_throws:
  assumes "truthy vcId" and "truthy reason"
      and "toStr e vcId = Inl err \<or> (\<exists>t. toStr e vcId = Inr t) \<and> toStr e reason = Inl err"
  shows "revoke e clk u vcId reason w =
           (RevokeFailed 500 ''VC revocation failed'' (message err),
            w\<lparr>console := console w @ [Err ''VC revocation error:'' (message err)]\<rparr>)"
  using assms
  by (auto simp: revoke_def revokeFailed_def logError_def)

lemma revoke_unprintable_id:
  "revoke throwingEnv testClock testUser (JObj [(''toString'', JNum 1)]) (JStr ''r'') emptyWorld =
     (RevokeFailed 500 ''VC revocation failed'' ''Cannot convert object to primitive value'',
      emptyWorld\<lparr>console :=
        [Err ''VC revocation error:'' ''Cannot convert object to primitive value'']\<rparr>)"
  by (simp add: revoke_def revokeFailed_def logError_def toStr_def throwingEnv_def emptyWorld_def)


text \<open>
  \<^bold>\<open>Claim C9\<close>, as the code has it. A revoke call whose \<^verbatim>\<open>reason\<close> is empty or missing
  (falsy) fails with status 400 and changes nothing: the handler returns before any
  effect. The error is \<^verbatim>\<open>Revocation reason required\<close> when a \<^verbatim>\<open>vcId\<close> is given; when the
  \<^verbatim>\<open>vcId\<close> is missing as well, the guard on the id comes first and the error is
  \<^verbatim>\<open>Missing VC ID\<close>.
\<close>

theorem C9_revoke_without_reason:
  assumes "\<not> truthy reason"
  shows "revoke e clk u vcId reason w =
           (RevokeError 400
              (if truthy vcId then ''Revocation reason required'' else ''Missing VC ID''), w)"
  using assms by (simp add: revoke_def)

theorem C9_revoke_without_reason_witness:
  "\<not> truthy (JStr []) \<and>
   revoke testEnv testClock testUser (JStr ''urn:uuid:pip-benefit-award-001'') (JStr [])
       emptyWorld =
     (RevokeError 400 ''Revocation reason required'', emptyWorld) \<and>
   \<not> truthy JUndefined \<and>
   revoke testEnv testClock testUser (JStr ''urn:uuid:pip-benefit-award-001'') JUndefined
       emptyWorld =
     (RevokeError 400 ''Revocation reason required'', emptyWorld)"
  using C9_revoke_without_reason
          [of "JStr []" testEnv testClock testUser "JStr ''urn:uuid:pip-benefit-award-001''"
              emptyWorld]
        C9_revoke_without_reason
          [of JUndefined testEnv testClock testUser "JStr ''urn:uuid:pip-benefit-award-001''"
              emptyWorld]
  by simp

text \<open>
  The claim as stated fails: a call with an empty reason and no \<^verbatim>\<open>vcId\<close> is not answered
  with the error about the reason.
\<close>

theorem C9_missing_id_comes_first:
  "revoke testEnv testClock testUser JUndefined (JStr []) emptyWorld =
     (RevokeError 400 ''Missing VC ID'', emptyWorld) \<and>
   RevokeError 400 ''Missing VC ID'' \<noteq> RevokeError 400 ''Revocation reason required''"
  by (simp add: revoke_def)

subsection \<open>Issuance\<close>

text \<open>
  \<^bold>\<open>Claim C10\<close>, as the code has it. The guard of the issue handler is \<^verbatim>\<open>!confirm\<close>, so it
  rejects the requests whose \<^verbatim>\<open>confirm\<close> is falsy: absent, \<^verbatim>\<open>false\<close>, \<^verbatim>\<open>null\<close>, \<^verbatim>\<open>0\<close> or the
  empty string. Such a request is answered 400 \<^verbatim>\<open>Confirmation required\<close> and the world
  is left exactly as it was: no id is taken, nothing is written to the pod, nothing is
  printed.
\<close>

theorem C10_issue_rejects_falsy_confirm:
  assumes "\<not> truthy confirm"
  shows "issue e clk u confirm podUrl w =
           (IssueError 400 ''Confirmation required''
              ''Must confirm VC issuance by setting confirm: true'', w)"
  using assms by (simp add: issue_def)

theorem C10_issue_rejects_falsy_confirm_witness:
  "\<not> truthy (JBool False) \<and> \<not> truthy JUndefined \<and>
   issue testEnv testClock testUser (JBool False) JUndefined emptyWorld =
     (IssueError 400 ''Confirmation required''
        ''Must confirm VC issuance by setting confirm: true'', emptyWorld) \<and>
   issue testEnv testClock testUser JUndefined JUndefined emptyWorld =
     (IssueError 400 ''Confirmation required''
        ''Must confirm VC issuance by setting confirm: true'', emptyWorld)"
  using C10_issue_rejects_falsy_confirm
          [of "JBool False" testEnv testClock testUser JUndefined emptyWorld]
        C10_issue_rejects_falsy_confirm
          [of JUndefined testEnv testClock testUser JUndefined emptyWorld]
  by simp

text \<open>
  The claim as stated fails: a body whose \<^verbatim>\<open>confirm\<close> is the string \<^verbatim>\<open>"false"\<close> does not set
  \<^verbatim>\<open>confirm\<close> to \<^verbatim>\<open>true\<close>, yet the request is not rejected: an id is taken and the two
  format artifacts, the index and the access-control document are written.
\<close>

theorem C10_truthy_confirm_is_issued:
  "JStr ''false'' \<noteq> JBool True \<and>
   fst (issue testEnv testClock testUser (JStr ''false'') JUndefined emptyWorld) \<noteq>
     IssueError 400 ''Confirmation required''
        ''Must confirm VC issuance by setting confirm: true'' \<and>
   uuids_taken (snd (issue testEnv testClock testUser (JStr ''false'') JUndefined emptyWorld)) = 1 \<and>
   map put_url
     (puts (snd (issue testEnv testClock testUser (JStr ''false'') JUndefined emptyWorld))) =
     [ ''https://user.example.org/storage/credentials/'' @
         ''urn:uuid:1b4e28ba-2fa1-4d3b-a3f5-ef19b5a7633b.jsonld'',
       ''https://user.example.org/storage/credentials/'' @
         ''urn:uuid:1b4e28ba-2fa1-4d3b-a3f5-ef19b5a7633b.ttl'',
       ''https://user.example.org/storage/credentials/index.ttl'',
       ''https://user.example.org/storage/credentials/'' @
         ''urn:uuid:1b4e28ba-2fa1-4d3b-a3f5-ef19b5a7633b.jsonld.acl'' ]"
  by (simp add: issue_def discoverPodUrl_def storeCredential_def putResource_def
      updateCredentialsIndex_def setCredentialPermissions_def logInfo_def Let_def
      testEnv_def testUser_def emptyWorld_def)

end
